theory Spec2Isabelle
  imports Complex_Main "HOL-Library.AList"
begin

section \<open>Python values, exceptions and strings\<close>

text \<open>
  The agents exchange dictionaries with string keys (\<^verbatim>\<open>Dict[str, Any]\<close>). A value is
  \<^verbatim>\<open>None\<close>, a number, a string, a list or a dictionary. A dictionary is an association
  list, in insertion order. A number (Python \<^verbatim>\<open>int\<close> or \<^verbatim>\<open>float\<close>) is the real it
  denotes: the rounding of a float quotient is not modelled. A string is the list of its
  characters; \<^typ>\<open>char\<close> covers the code points below 256.
\<close>

datatype pyval =
    PNone
  | PNum real
  | PStr string
  | PList "pyval list"
  | PDict "(string \<times> pyval) list"

type_synonym pydict = "(string \<times> pyval) list"

text \<open>
  The exceptions. \<open>Exception\<close> carries the message of a \<^verbatim>\<open>raise Exception(...)\<close>;
  \<open>ProviderError\<close> stands for whatever error an external service or library raises.
  These and the built-in errors before them are subclasses of \<^verbatim>\<open>Exception\<close>. The last
  three derive from \<^verbatim>\<open>BaseException\<close> only: \<^verbatim>\<open>asyncio.CancelledError\<close> (raised inside
  an awaited call when its task is cancelled), \<^verbatim>\<open>KeyboardInterrupt\<close> and \<^verbatim>\<open>SystemExit\<close>.
\<close>

datatype pyexc =
    KeyError string
  | TypeError
  | AttributeError
  | ZeroDivisionError
  | ProviderError string
  | Exception string
  | CancelledError
  | KeyboardInterrupt
  | SystemExit

text \<open>\<^verbatim>\<open>isinstance(e, Exception)\<close>\<close>

fun is_Exception :: "pyexc \<Rightarrow> bool" where
  "is_Exception CancelledError = False"
| "is_Exception KeyboardInterrupt = False"
| "is_Exception SystemExit = False"
| "is_Exception e = True"

text \<open>A computation that may raise returns \<open>Inl\<close> of the exception or \<open>Inr\<close> of its value.\<close>

definition pbind :: "pyexc + 'a \<Rightarrow> ('a \<Rightarrow> pyexc + 'b) \<Rightarrow> pyexc + 'b" where
  "pbind m f = (case m of Inl e \<Rightarrow> Inl e | Inr x \<Rightarrow> f x)"

text \<open>
  \<^verbatim>\<open>try: body except Exception as e: handler\<close>. The handler runs for an instance of
  \<^verbatim>\<open>Exception\<close>; any other exception passes through.
\<close>

definition try_except :: "pyexc + 'a \<Rightarrow> (pyexc \<Rightarrow> pyexc + 'a) \<Rightarrow> pyexc + 'a" where
  "try_except body handler =
     (case body of
        Inl e \<Rightarrow> if is_Exception e then handler e else Inl e
      | Inr x \<Rightarrow> Inr x)"

text \<open>Truthiness, as \<^verbatim>\<open>if x\<close> and \<^verbatim>\<open>not x\<close> test it.\<close>

fun truthy :: "pyval \<Rightarrow> bool" where
  "truthy PNone = False"
| "truthy (PNum x) = (x \<noteq> 0)"
| "truthy (PStr s) = (s \<noteq> [])"
| "truthy (PList xs) = (xs \<noteq> [])"
| "truthy (PDict d) = (d \<noteq> [])"

text \<open>\<^verbatim>\<open>key in d\<close> and \<^verbatim>\<open>d[key]\<close> on a dictionary.\<close>

definition contains :: "pydict \<Rightarrow> string \<Rightarrow> bool" where
  "contains d key = (map_of d key \<noteq> None)"

definition getitem :: "pydict \<Rightarrow> string \<Rightarrow> pyexc + pyval" where
  "getitem d key = (case map_of d key of None \<Rightarrow> Inl (KeyError key) | Some v \<Rightarrow> Inr v)"

text \<open>\<^verbatim>\<open>v[key]\<close> on any value with a string key: only a dictionary accepts it.\<close>

fun py_getitem :: "pyval \<Rightarrow> string \<Rightarrow> pyexc + pyval" where
  "py_getitem (PDict d) key = getitem d key"
| "py_getitem v key = Inl TypeError"

text \<open>\<^verbatim>\<open>len(v)\<close>\<close>

fun py_len :: "pyval \<Rightarrow> pyexc + nat" where
  "py_len (PStr s) = Inr (length s)"
| "py_len (PList xs) = Inr (length xs)"
| "py_len (PDict d) = Inr (length d)"
| "py_len v = Inl TypeError"

text \<open>\<^verbatim>\<open>for x in v\<close>: the items the loop visits.\<close>

fun py_iter :: "pyval \<Rightarrow> pyexc + pyval list" where
  "py_iter (PList xs) = Inr xs"
| "py_iter (PStr s) = Inr (map (\<lambda>c. PStr [c]) s)"
| "py_iter (PDict d) = Inr (map (\<lambda>(k, v). PStr k) d)"
| "py_iter v = Inl TypeError"

text \<open>\<^verbatim>\<open>a / b\<close> on numbers.\<close>

fun py_truediv :: "pyval \<Rightarrow> pyval \<Rightarrow> pyexc + pyval" where
  "py_truediv (PNum a) (PNum b) = (if b = 0 then Inl ZeroDivisionError else Inr (PNum (a / b)))"
| "py_truediv a b = Inl TypeError"

text \<open>A loop whose body may raise: the first exception ends it.\<close>

fun for_each :: "('a \<Rightarrow> pyexc + 'b) \<Rightarrow> 'a list \<Rightarrow> pyexc + 'b list" where
  "for_each f [] = Inr []"
| "for_each f (x # xs) = pbind (f x) (\<lambda>y. pbind (for_each f xs) (\<lambda>ys. Inr (y # ys)))"

subsection \<open>Strings\<close>

text \<open>
  The characters \<^verbatim>\<open>str.isspace\<close> accepts, among the code points below 256: tab, line
  feed, vertical tab, form feed, carriage return, the separators 28 to 31, space, next
  line (133) and no-break space (160).
\<close>

definition is_space :: "char \<Rightarrow> bool" where
  "is_space c = (of_char c \<in> {9, 10, 11, 12, 13, 28, 29, 30, 31, 32, 133, 160 :: nat})"

text \<open>\<^verbatim>\<open>s.strip()\<close>\<close>

definition strip :: "string \<Rightarrow> string" where
  "strip s = rev (dropWhile is_space (rev (dropWhile is_space s)))"

text \<open>
  Cutting a string at every character that satisfies \<open>P\<close>: one more piece than there are
  such characters, empty pieces kept.
\<close>

fun pieces :: "(char \<Rightarrow> bool) \<Rightarrow> string \<Rightarrow> string list" where
  "pieces P [] = [] # []"
| "pieces P (c # cs) =
     (if P c then [] # pieces P cs
      else (case pieces P cs of [] \<Rightarrow> [c] # [] | w # ws \<Rightarrow> (c # w) # ws))"

text \<open>\<^verbatim>\<open>s.split(sep)\<close> for a separator of one character.\<close>

definition split_sep :: "char \<Rightarrow> string \<Rightarrow> string list" where
  "split_sep sep s = pieces (\<lambda>c. c = sep) s"

text \<open>\<^verbatim>\<open>s.split()\<close>: the maximal runs of characters that are not whitespace.\<close>

definition split_ws :: "string \<Rightarrow> string list" where
  "split_ws s = filter (\<lambda>w. w \<noteq> []) (pieces is_space s)"

text \<open>\<^verbatim>\<open>v.split()\<close> on any value: only a string has the method.\<close>

fun py_split :: "pyval \<Rightarrow> pyexc + string list" where
  "py_split (PStr s) = Inr (split_ws s)"
| "py_split v = Inl AttributeError"

text \<open>\<^verbatim>\<open>sep.join(xs)\<close>\<close>

fun join :: "string \<Rightarrow> string list \<Rightarrow> string" where
  "join sep [] = []"
| "join sep [x] = x"
| "join sep (x # y # ys) = x @ sep @ join sep (y # ys)"

text \<open>\<^verbatim>\<open>s.startswith(p)\<close>\<close>

definition startswith :: "string \<Rightarrow> string \<Rightarrow> bool" where
  "startswith s p = (take (length p) s = p)"

definition newline :: char where
  "newline = CHR 0x0A"

section \<open>BaseAgent\<close>

text \<open>
  \<^verbatim>\<open>BaseAgent.run\<close>. The abstract methods \<^verbatim>\<open>process\<close> and \<^verbatim>\<open>validate_output\<close> are
  parameters; both are called inside the \<^verbatim>\<open>try\<close> block, so both may raise, and the
  handler is \<^verbatim>\<open>except Exception\<close>. The result is \<open>Inr None\<close> for Python's \<^verbatim>\<open>None\<close>,
  \<open>Inr (Some output)\<close> for a returned output and \<open>Inl e\<close> for an exception that leaves
  \<^verbatim>\<open>run\<close>. Log entries are not modelled.
\<close>

definition BaseAgent_run ::
  "('i \<Rightarrow> pyexc + 'o) \<Rightarrow> ('o \<Rightarrow> pyexc + bool) \<Rightarrow> 'i \<Rightarrow> pyexc + 'o option" where
  "BaseAgent_run process validate_output input_data =
     try_except
       (pbind (process input_data) (\<lambda>output.
        pbind (validate_output output) (\<lambda>valid.
          if valid then Inr (Some output) else Inr None)))
       (\<lambda>e. Inr None)"

section \<open>ResearchAgent\<close>

text \<open>\<^verbatim>\<open>ResearchAgent.validate_output\<close>\<close>

definition ResearchAgent_validate_output :: "pydict \<Rightarrow> pyexc + bool" where
  "ResearchAgent_validate_output output =
     (let required_keys = [''facts'', ''sources'', ''metadata''] in
      if \<not> list_all (\<lambda>key. contains output key) required_keys then Inr False
      else pbind (getitem output ''facts'') (\<lambda>facts.
        if \<not> truthy facts then Inr False
        else pbind (getitem output ''sources'') (\<lambda>sources.
          if \<not> truthy sources then Inr False
          else pbind (py_len facts) (\<lambda>n_facts.
               pbind (py_len sources) (\<lambda>n_sources.
                 if n_facts > n_sources then Inr False else Inr True)))))"

text \<open>
  \<^verbatim>\<open>ResearchAgent._process_research\<close>. The loop over the lines of the response carries
  \<^verbatim>\<open>current_section\<close>, \<^verbatim>\<open>facts\<close> and \<^verbatim>\<open>sources\<close>.
\<close>

fun research_loop ::
  "string list \<Rightarrow> string option \<Rightarrow> string list \<Rightarrow> string list \<Rightarrow> string list \<times> string list" where
  "research_loop [] current_section facts sources = (facts, sources)"
| "research_loop (raw # rest) current_section facts sources =
     (let line = strip raw in
      if line = [] then research_loop rest current_section facts sources
      else if line = ''FACTS:'' then research_loop rest (Some ''facts'') facts sources
      else if line = ''SOURCES:'' then research_loop rest (Some ''sources'') facts sources
      else if startswith line ''- '' then
        (if current_section = Some ''facts''
           then research_loop rest current_section (facts @ [drop 2 line]) sources
         else if current_section = Some ''sources''
           then research_loop rest current_section facts (sources @ [drop 2 line])
         else research_loop rest current_section facts sources)
      else research_loop rest current_section facts sources)"

definition process_research :: "string \<Rightarrow> string list \<times> string list" where
  "process_research response = research_loop (split_sep newline response) None [] []"

text \<open>
  What the description of \<^verbatim>\<open>_process_research\<close> says, in its own words: the lines of
  the response are trimmed; a header line is \<^verbatim>\<open>FACTS:\<close> or \<^verbatim>\<open>SOURCES:\<close>; the header
  in force at a line is the last header line before it; the items after a header are the
  lines that start with \<^verbatim>\<open>"- "\<close> while that header is in force, without the prefix, in
  their order of appearance.
\<close>

definition is_header :: "string \<Rightarrow> bool" where
  "is_header l = (l = ''FACTS:'' \<or> l = ''SOURCES:'')"

definition header_in_force :: "string list \<Rightarrow> string option" where
  "header_in_force ls =
     (let hs = filter is_header ls in if hs = [] then None else Some (last hs))"

definition items_after :: "string \<Rightarrow> string \<Rightarrow> string list" where
  "items_after header response =
     (let ls = map strip (split_sep newline response) in
      [drop 2 (ls ! i). i \<leftarrow> [0..<length ls],
         startswith (ls ! i) ''- '', header_in_force (take i ls) = Some header])"

text \<open>
  Auxiliary, for the proofs: the header in force after the lines \<open>ls\<close> when \<open>H\<close> was
  in force before them, and the items selected from \<open>ls\<close> in that situation.
\<close>

definition in_force :: "string option \<Rightarrow> string list \<Rightarrow> string option" where
  "in_force H ls = (let hs = filter is_header ls in if hs = [] then H else Some (last hs))"

definition sel :: "string \<Rightarrow> string option \<Rightarrow> string list \<Rightarrow> string list" where
  "sel header H ls =
     [drop 2 (ls ! i). i \<leftarrow> [0..<length ls],
        startswith (ls ! i) ''- '', in_force H (take i ls) = Some header]"

section \<open>ScriptAgent\<close>

text \<open>The attributes \<^verbatim>\<open>__init__\<close> reads from the agent's configuration.\<close>

record script_agent =
  model :: pyval
  max_tokens :: pyval
  temperature :: pyval

text \<open>\<^verbatim>\<open>ScriptAgent.validate_output\<close>\<close>

definition ScriptAgent_validate_output :: "pydict \<Rightarrow> pyexc + bool" where
  "ScriptAgent_validate_output output =
     (let required_keys = [''script'', ''hook'', ''call_to_action'', ''metadata''] in
      if \<not> list_all (\<lambda>key. contains output key) required_keys then Inr False
      else pbind (getitem output ''script'') (\<lambda>script.
        if \<not> truthy script then Inr False
        else pbind (getitem output ''hook'') (\<lambda>hook.
          if \<not> truthy hook then Inr False
          else pbind (getitem output ''call_to_action'') (\<lambda>call_to_action.
            if \<not> truthy call_to_action then Inr False
            else pbind (py_split script) (\<lambda>ws.
              let words = length ws in
              if words < 50 \<or> words > 300 then Inr False else Inr True)))))"

text \<open>
  \<^verbatim>\<open>ScriptAgent._process_script\<close>. \<open>store\<close> is the statement
  \<^verbatim>\<open>if current_section: script_parts[current_section] = "\n".join(current_content)\<close>;
  the loop carries \<^verbatim>\<open>script_parts\<close>, \<^verbatim>\<open>current_section\<close> and \<^verbatim>\<open>current_content\<close>.
\<close>

definition store :: "pydict \<Rightarrow> string option \<Rightarrow> string list \<Rightarrow> pydict" where
  "store script_parts current_section current_content =
     (case current_section of
        None \<Rightarrow> script_parts
      | Some section \<Rightarrow>
          AList.update section (PStr (join [newline] current_content)) script_parts)"

fun script_loop :: "string list \<Rightarrow> pydict \<Rightarrow> string option \<Rightarrow> string list \<Rightarrow> pydict" where
  "script_loop [] script_parts current_section current_content =
     store script_parts current_section current_content"
| "script_loop (raw # rest) script_parts current_section current_content =
     (let line = strip raw in
      if line = [] then script_loop rest script_parts current_section current_content
      else if line = ''HOOK:'' then
        script_loop rest (store script_parts current_section current_content) (Some ''hook'') []
      else if line = ''MAIN CONTENT:'' then
        script_loop rest (store script_parts current_section current_content)
          (Some ''main_content'') []
      else if line = ''CALL TO ACTION:'' then
        script_loop rest (store script_parts current_section current_content)
          (Some ''call_to_action'') []
      else script_loop rest script_parts current_section (current_content @ [line]))"

definition process_script :: "string \<Rightarrow> pydict" where
  "process_script response =
     script_loop (split_sep newline response)
       [(''hook'', PStr []), (''main_content'', PStr []), (''call_to_action'', PStr [])]
       None []"

text \<open>
  \<^verbatim>\<open>ScriptAgent.process\<close>. The parameter \<open>get_script\<close> stands for the two calls
  \<^verbatim>\<open>_construct_script_prompt(facts, platform, style, duration)\<close> and
  \<^verbatim>\<open>_get_script(prompt)\<close>: from the four inputs it returns the text of the provider's
  response or raises.
\<close>

definition ScriptAgent_process ::
  "script_agent \<Rightarrow> (pyval \<Rightarrow> pyval \<Rightarrow> pyval \<Rightarrow> pyval \<Rightarrow> pyexc + string) \<Rightarrow> pydict
     \<Rightarrow> pyexc + pydict" where
  "ScriptAgent_process self get_script input_data =
     pbind (getitem input_data ''facts'') (\<lambda>facts.
     pbind (getitem input_data ''platform'') (\<lambda>platform.
     pbind (getitem input_data ''style'') (\<lambda>style.
     pbind (getitem input_data ''duration'') (\<lambda>duration.
     pbind (get_script facts platform style duration) (\<lambda>response.
     let script_parts = process_script response in
     pbind (getitem script_parts ''main_content'') (\<lambda>main_content.
     pbind (getitem script_parts ''hook'') (\<lambda>hook.
     pbind (getitem script_parts ''call_to_action'') (\<lambda>call_to_action.
       Inr [(''script'', main_content),
            (''hook'', hook),
            (''call_to_action'', call_to_action),
            (''metadata'', PDict [(''platform'', platform), (''style'', style),
                                  (''duration'', duration), (''model'', model self)])]))))))))"

text \<open>A script of \<open>n\<close> one-letter words, for the examples.\<close>

definition wordy :: "nat \<Rightarrow> string" where
  "wordy n = concat (replicate n ''w '')"

section \<open>VisualAgent\<close>

text \<open>
  The attributes \<^verbatim>\<open>__init__\<close> reads from the configuration. \<open>self_style\<close> is
  \<^verbatim>\<open>self.style\<close>, renamed apart from the argument \<^verbatim>\<open>style\<close> of the methods.
\<close>

record visual_agent =
  provider :: string
  self_style :: string
  image_quality :: string

text \<open>The text of one prompt: the f-string of \<^verbatim>\<open>_generate_image_prompts\<close>, line by line.\<close>

definition image_prompt :: "visual_agent \<Rightarrow> string \<Rightarrow> string \<Rightarrow> string" where
  "image_prompt self style sentence =
     [newline] @ replicate 12 CHR '' '' @
       ''Create a '' @ style @ '' image that illustrates: '' @ sentence @
     [newline] @ replicate 12 CHR '' '' @ ''Style: '' @ self_style self @
     [newline] @ replicate 12 CHR '' '' @ ''Quality: '' @ image_quality self @
     [newline] @ replicate 12 CHR '' '' @
       ''Make it visually appealing and historically accurate.'' @
     [newline] @ replicate 12 CHR '' ''"

text \<open>\<^verbatim>\<open>VisualAgent._generate_image_prompts\<close>: the loop appends one prompt per sentence.\<close>

fun prompts_loop :: "visual_agent \<Rightarrow> string \<Rightarrow> string list \<Rightarrow> string list \<Rightarrow> string list" where
  "prompts_loop self style [] prompts = prompts"
| "prompts_loop self style (sentence # rest) prompts =
     prompts_loop self style rest (prompts @ [image_prompt self style sentence])"

definition generate_image_prompts :: "visual_agent \<Rightarrow> string \<Rightarrow> string \<Rightarrow> string list" where
  "generate_image_prompts self script style =
     (let sentences = [strip s. s \<leftarrow> split_sep CHR ''.'' script, strip s \<noteq> ''''] in
      prompts_loop self style sentences [])"

text \<open>
  The sentences of a script as the description of the decomposition words them: the
  non-empty period-delimited segments, in order.
\<close>

definition period_segments :: "string \<Rightarrow> string list" where
  "period_segments script = filter (\<lambda>s. s \<noteq> []) (split_sep CHR ''.'' script)"

text \<open>
  \<^verbatim>\<open>VisualAgent.validate_output\<close>. \<open>path_exists\<close> is \<^verbatim>\<open>os.path.exists\<close> and
  \<open>image_open\<close> is \<^verbatim>\<open>Image.open\<close>, on the file system of the run. \<open>check_images\<close> is
  the loop over the image paths.
\<close>

fun check_images ::
  "(pyval \<Rightarrow> pyexc + bool) \<Rightarrow> (pyval \<Rightarrow> pyexc + unit) \<Rightarrow> pyval list \<Rightarrow> pyexc + bool" where
  "check_images path_exists image_open [] = Inr True"
| "check_images path_exists image_open (image_path # rest) =
     pbind (path_exists image_path) (\<lambda>found.
       if \<not> found then Inr False
       else (case image_open image_path of
               Inl e \<Rightarrow> if is_Exception e then Inr False else Inl e
             | Inr opened \<Rightarrow> check_images path_exists image_open rest))"

definition VisualAgent_validate_output ::
  "(pyval \<Rightarrow> pyexc + bool) \<Rightarrow> (pyval \<Rightarrow> pyexc + unit) \<Rightarrow> pydict \<Rightarrow> pyexc + bool" where
  "VisualAgent_validate_output path_exists image_open output =
     (let required_keys = [''image_paths'', ''metadata''] in
      if \<not> list_all (\<lambda>key. contains output key) required_keys then Inr False
      else pbind (getitem output ''image_paths'') (\<lambda>image_paths.
        if \<not> truthy image_paths then Inr False
        else pbind (py_iter image_paths) (\<lambda>items.
          check_images path_exists image_open items)))"

section \<open>EditorAgent\<close>

record editor_agent =
  video_quality :: pyval
  audio_quality :: pyval
  transition_style :: pyval

text \<open>
  A clip of moviepy, as far as the agent uses it: the image it shows and its duration
  (\<^verbatim>\<open>None\<close> until set). \<open>load_error\<close> says which exception, if any, \<^verbatim>\<open>ImageClip(path)\<close>
  raises on the file system of the run.
\<close>

record clip =
  clip_source :: pyval
  clip_duration :: pyval

definition ImageClip :: "(pyval \<Rightarrow> pyexc option) \<Rightarrow> pyval \<Rightarrow> pyexc + clip" where
  "ImageClip load_error image_path =
     (case load_error image_path of
        Some e \<Rightarrow> Inl e
      | None \<Rightarrow> Inr \<lparr>clip_source = image_path, clip_duration = PNone\<rparr>)"

definition set_duration :: "clip \<Rightarrow> pyval \<Rightarrow> clip" where
  "set_duration c d = c\<lparr>clip_duration := d\<rparr>"

text \<open>\<^verbatim>\<open>EditorAgent._create_video_clips\<close>\<close>

definition create_video_clips ::
  "(pyval \<Rightarrow> pyexc option) \<Rightarrow> pyval \<Rightarrow> pyval \<Rightarrow> pyexc + clip list" where
  "create_video_clips load_error image_paths total_duration =
     pbind (py_len image_paths) (\<lambda>n.
     pbind (py_truediv total_duration (PNum (real n))) (\<lambda>duration_per_clip.
     pbind (py_iter image_paths) (\<lambda>items.
       for_each (\<lambda>image_path.
           pbind (ImageClip load_error image_path) (\<lambda>c.
             Inr (set_duration c duration_per_clip)))
         items)))"

text \<open>
  \<^verbatim>\<open>EditorAgent.process\<close>. After the clips are made, the method adds transitions,
  concatenates the clips, attaches the audio and writes the file, all through moviepy;
  \<open>write_video\<close> stands for these steps and returns the path of the written file or
  raises.
\<close>

definition EditorAgent_process ::
  "editor_agent \<Rightarrow> (pyval \<Rightarrow> pyexc option) \<Rightarrow> (clip list \<Rightarrow> pyval \<Rightarrow> pyval \<Rightarrow> pyexc + string)
     \<Rightarrow> pydict \<Rightarrow> pyexc + pydict" where
  "EditorAgent_process self load_error write_video input_data =
     pbind (getitem input_data ''image_paths'') (\<lambda>image_paths.
     pbind (getitem input_data ''audio_path'') (\<lambda>audio_path.
     pbind (getitem input_data ''platform'') (\<lambda>platform.
     pbind (getitem input_data ''duration'') (\<lambda>duration.
     pbind (getitem input_data ''aspect_ratio'') (\<lambda>aspect_ratio.
     pbind (create_video_clips load_error image_paths duration) (\<lambda>video_clips.
     pbind (write_video video_clips audio_path platform) (\<lambda>output_file.
       Inr [(''video_path'', PStr output_file),
            (''metadata'', PDict [(''platform'', platform), (''duration'', duration),
               (''aspect_ratio'', aspect_ratio), (''video_quality'', video_quality self),
               (''audio_quality'', audio_quality self),
               (''transition_style'', transition_style self)])])))))))"

text \<open>
  \<^verbatim>\<open>EditorAgent.validate_output\<close>. \<open>video_duration\<close> opens the file as a video, reads
  its duration and closes it; it raises when one of these steps does.
\<close>

definition EditorAgent_validate_output ::
  "(pyval \<Rightarrow> pyexc + bool) \<Rightarrow> (pyval \<Rightarrow> pyexc + real) \<Rightarrow> pydict \<Rightarrow> pyexc + bool" where
  "EditorAgent_validate_output path_exists video_duration output =
     (let required_keys = [''video_path'', ''metadata''] in
      if \<not> list_all (\<lambda>key. contains output key) required_keys then Inr False
      else pbind (getitem output ''video_path'') (\<lambda>video_path.
        pbind (path_exists video_path) (\<lambda>found.
          if \<not> found then Inr False
          else try_except
                 (pbind (video_duration video_path) (\<lambda>d.
                    if d \<le> 0 then Inr False else Inr True))
                 (\<lambda>e. Inr False))))"

section \<open>ContentGenerator\<close>

text \<open>
  The five agents, in pipeline order. The orchestrator calls only their \<^verbatim>\<open>run\<close>,
  which returns an output dictionary or \<^verbatim>\<open>None\<close>; each is a parameter, so that any
  agent (a mock as well) is covered. A \<^verbatim>\<open>run\<close> that is left by an exception outside
  \<^verbatim>\<open>Exception\<close> (a cancelled task, an interrupt) is not followed here.
\<close>

datatype stage = Research | Script | Voice | Visual | Editor

record agents =
  research_run :: "pydict \<Rightarrow> pydict option"
  script_run :: "pydict \<Rightarrow> pydict option"
  voice_run :: "pydict \<Rightarrow> pydict option"
  visual_run :: "pydict \<Rightarrow> pydict option"
  editor_run :: "pydict \<Rightarrow> pydict option"

text \<open>
  The effect of a run of the orchestrator is the sequence of its calls to the agents:
  each call is recorded with its stage, the input passed to \<^verbatim>\<open>run\<close> and what \<^verbatim>\<open>run\<close>
  returned. A step of the orchestrator takes the calls made so far and returns its value
  or exception together with the extended sequence.
\<close>

record call =
  call_stage :: stage
  call_input :: pydict
  call_result :: "pydict option"

type_synonym 'a step = "call list \<Rightarrow> (pyexc + 'a) \<times> call list"

definition lift :: "pyexc + 'a \<Rightarrow> 'a step" where
  "lift m calls = (m, calls)"

definition sbind :: "'a step \<Rightarrow> ('a \<Rightarrow> 'b step) \<Rightarrow> 'b step" where
  "sbind m f calls =
     (case m calls of
        (Inl e, calls') \<Rightarrow> (Inl e, calls')
      | (Inr x, calls') \<Rightarrow> f x calls')"

definition invoke :: "stage \<Rightarrow> (pydict \<Rightarrow> pydict option) \<Rightarrow> pydict \<Rightarrow> pydict option step" where
  "invoke s run input_data calls =
     (let output = run input_data in
      (Inr output,
       calls @ [\<lparr>call_stage = s, call_input = input_data, call_result = output\<rparr>]))"

text \<open>
  \<^verbatim>\<open>if not output: raise Exception(message)\<close>: \<^verbatim>\<open>None\<close> and the empty dictionary are
  falsy.
\<close>

definition require :: "string \<Rightarrow> pydict option \<Rightarrow> pyexc + pydict" where
  "require message output =
     (case output of
        None \<Rightarrow> Inl (Exception message)
      | Some d \<Rightarrow> if d = [] then Inl (Exception message) else Inr d)"

text \<open>The \<^verbatim>\<open>try\<close> block of \<^verbatim>\<open>ContentGenerator.generate_content\<close>.\<close>

definition generate_content_body :: "pydict \<Rightarrow> agents \<Rightarrow> string \<Rightarrow> string \<Rightarrow> pydict step" where
  "generate_content_body config agents topic platform =
     sbind (lift (pbind (getitem config ''platforms'') (\<lambda>platforms.
                  py_getitem platforms platform))) (\<lambda>platform_config.
     sbind (lift (py_getitem platform_config ''style'')) (\<lambda>style.
     sbind (invoke Research (research_run agents)
              [(''topic'', PStr topic), (''platform'', PStr platform), (''style'', style)])
       (\<lambda>research_output.
     sbind (lift (require ''Research phase failed'' research_output)) (\<lambda>research_output.
     sbind (lift (getitem research_output ''facts'')) (\<lambda>facts.
     sbind (lift (py_getitem platform_config ''style'')) (\<lambda>style.
     sbind (lift (py_getitem platform_config ''max_duration'')) (\<lambda>max_duration.
     sbind (invoke Script (script_run agents)
              [(''facts'', facts), (''platform'', PStr platform), (''style'', style),
               (''duration'', max_duration)])
       (\<lambda>script_output.
     sbind (lift (require ''Script generation failed'' script_output)) (\<lambda>script_output.
     sbind (lift (getitem script_output ''script'')) (\<lambda>script.
     sbind (lift (py_getitem platform_config ''style'')) (\<lambda>style.
     sbind (invoke Voice (voice_run agents)
              [(''script'', script), (''platform'', PStr platform), (''style'', style)])
       (\<lambda>voice_output.
     sbind (lift (require ''Voice-over generation failed'' voice_output)) (\<lambda>voice_output.
     sbind (lift (getitem script_output ''script'')) (\<lambda>script.
     sbind (lift (py_getitem platform_config ''style'')) (\<lambda>style.
     sbind (lift (py_getitem platform_config ''aspect_ratio'')) (\<lambda>aspect_ratio.
     sbind (invoke Visual (visual_run agents)
              [(''script'', script), (''platform'', PStr platform), (''style'', style),
               (''aspect_ratio'', aspect_ratio)])
       (\<lambda>visual_output.
     sbind (lift (require ''Visual asset generation failed'' visual_output)) (\<lambda>visual_output.
     sbind (lift (getitem visual_output ''image_paths'')) (\<lambda>image_paths.
     sbind (lift (getitem voice_output ''audio_path'')) (\<lambda>audio_path.
     sbind (lift (py_getitem platform_config ''max_duration'')) (\<lambda>max_duration.
     sbind (lift (py_getitem platform_config ''aspect_ratio'')) (\<lambda>aspect_ratio.
     sbind (invoke Editor (editor_run agents)
              [(''image_paths'', image_paths), (''audio_path'', audio_path),
               (''platform'', PStr platform), (''duration'', max_duration),
               (''aspect_ratio'', aspect_ratio)])
       (\<lambda>editor_output.
     sbind (lift (require ''Video editing failed'' editor_output)) (\<lambda>editor_output.
     sbind (lift (getitem editor_output ''video_path'')) (\<lambda>video_path.
     sbind (lift (getitem research_output ''metadata'')) (\<lambda>research_metadata.
     sbind (lift (getitem script_output ''metadata'')) (\<lambda>script_metadata.
     sbind (lift (getitem voice_output ''metadata'')) (\<lambda>voice_metadata.
     sbind (lift (getitem visual_output ''metadata'')) (\<lambda>visual_metadata.
     sbind (lift (getitem editor_output ''metadata'')) (\<lambda>editor_metadata.
       lift (Inr [(''video_path'', video_path),
                  (''metadata'', PDict [(''topic'', PStr topic),
                     (''platform'', PStr platform),
                     (''research'', research_metadata),
                     (''script'', script_metadata),
                     (''voice'', voice_metadata),
                     (''visual'', visual_metadata),
                     (''editor'', editor_metadata)])])
     ))))))))))))))))))))))))))))))"

text \<open>
  \<^verbatim>\<open>ContentGenerator.generate_content\<close>: the \<^verbatim>\<open>try\<close> block under its handler, which
  prints the error and returns \<^verbatim>\<open>None\<close>. The result is paired with the calls made.
\<close>

definition generate_content ::
  "pydict \<Rightarrow> agents \<Rightarrow> string \<Rightarrow> string \<Rightarrow> (pyexc + pydict option) \<times> call list" where
  "generate_content config agents topic platform =
     (case generate_content_body config agents topic platform [] of
        (result, calls) \<Rightarrow>
          (try_except (pbind result (\<lambda>content. Inr (Some content))) (\<lambda>e. Inr None), calls))"

text \<open>The \<^verbatim>\<open>required_keys\<close> of each agent's \<^verbatim>\<open>validate_output\<close>.\<close>

fun required_keys :: "stage \<Rightarrow> string list" where
  "required_keys Research = [''facts'', ''sources'', ''metadata'']"
| "required_keys Script = [''script'', ''hook'', ''call_to_action'', ''metadata'']"
| "required_keys Voice = [''audio_path'', ''duration'', ''metadata'']"
| "required_keys Visual = [''image_paths'', ''metadata'']"
| "required_keys Editor = [''video_path'', ''metadata'']"

text \<open>
  For the examples: a configuration with one platform, and mocked agents that return
  canned outputs. \<open>canned\<close> is an output of each stage with the keys the stage
  requires (the script has 50 words); \<open>mocks failing\<close> are the five mocks, of which the
  stages in \<open>failing\<close> return \<^verbatim>\<open>None\<close>.
\<close>

definition example_config :: pydict where
  "example_config =
     [(''platforms'', PDict [(''youtube_shorts'',
         PDict [(''style'', PStr ''educational''), (''max_duration'', PNum 60),
                (''aspect_ratio'', PStr ''9:16'')])])]"

fun canned :: "stage \<Rightarrow> pydict" where
  "canned Research =
     [(''facts'', PList [PStr ''fact'']), (''sources'', PList [PStr ''source'']),
      (''metadata'', PDict [(''model'', PStr ''llama2'')])]"
| "canned Script =
     [(''script'', PStr (wordy 50)), (''hook'', PStr ''hook''),
      (''call_to_action'', PStr ''cta''), (''metadata'', PDict [(''model'', PStr ''gpt-4'')])]"
| "canned Voice =
     [(''audio_path'', PStr ''voice.mp3''), (''duration'', PNum 42),
      (''metadata'', PDict [(''voice_id'', PStr ''en-US'')])]"
| "canned Visual =
     [(''image_paths'', PList [PStr ''image_0.png'']),
      (''metadata'', PDict [(''provider'', PStr ''dalle'')])]"
| "canned Editor =
     [(''video_path'', PStr ''final.mp4''),
      (''metadata'', PDict [(''video_quality'', PStr ''high'')])]"

text \<open>The input each mocked stage receives in the example runs, and the call recorded.\<close>

fun example_input :: "stage \<Rightarrow> pydict" where
  "example_input Research =
     [(''topic'', PStr ''Ancient Egyptian Pyramids''), (''platform'', PStr ''youtube_shorts''),
      (''style'', PStr ''educational'')]"
| "example_input Script =
     [(''facts'', PList [PStr ''fact'']), (''platform'', PStr ''youtube_shorts''),
      (''style'', PStr ''educational''), (''duration'', PNum 60)]"
| "example_input Voice =
     [(''script'', PStr (wordy 50)), (''platform'', PStr ''youtube_shorts''),
      (''style'', PStr ''educational'')]"
| "example_input Visual =
     [(''script'', PStr (wordy 50)), (''platform'', PStr ''youtube_shorts''),
      (''style'', PStr ''educational''), (''aspect_ratio'', PStr ''9:16'')]"
| "example_input Editor =
     [(''image_paths'', PList [PStr ''image_0.png'']), (''audio_path'', PStr ''voice.mp3''),
      (''platform'', PStr ''youtube_shorts''), (''duration'', PNum 60),
      (''aspect_ratio'', PStr ''9:16'')]"

definition example_call :: "stage \<Rightarrow> pydict option \<Rightarrow> call" where
  "example_call s output = \<lparr>call_stage = s, call_input = example_input s, call_result = output\<rparr>"

definition mock :: "stage list \<Rightarrow> stage \<Rightarrow> pydict \<Rightarrow> pydict option" where
  "mock failing s input_data = (if s \<in> set failing then None else Some (canned s))"

definition mocks :: "stage list \<Rightarrow> agents" where
  "mocks failing =
     \<lparr>research_run = mock failing Research, script_run = mock failing Script,
      voice_run = mock failing Voice, visual_run = mock failing Visual,
      editor_run = mock failing Editor\<rparr>"

section \<open>VoiceAgent\<close>

text \<open>\<^verbatim>\<open>x <= 0\<close> on any value: only a number compares with \<^verbatim>\<open>0\<close>.\<close>

fun py_le_zero :: "pyval \<Rightarrow> pyexc + bool" where
  "py_le_zero (PNum x) = Inr (x \<le> 0)"
| "py_le_zero v = Inl TypeError"

text \<open>\<^verbatim>\<open>VoiceAgent.validate_output\<close>, with \<open>path_exists\<close> for \<^verbatim>\<open>os.path.exists\<close>.\<close>

definition VoiceAgent_validate_output :: "(pyval \<Rightarrow> pyexc + bool) \<Rightarrow> pydict \<Rightarrow> pyexc + bool" where
  "VoiceAgent_validate_output path_exists output =
     (let required_keys = [''audio_path'', ''duration'', ''metadata''] in
      if \<not> list_all (\<lambda>key. contains output key) required_keys then Inr False
      else pbind (getitem output ''audio_path'') (\<lambda>audio_path.
        pbind (path_exists audio_path) (\<lambda>found.
          if \<not> found then Inr False
          else pbind (getitem output ''duration'') (\<lambda>duration.
            pbind (py_le_zero duration) (\<lambda>not_positive.
              if not_positive then Inr False else Inr True)))))"

section \<open>Properties\<close>

subsection \<open>BaseAgent.run\<close>




subsection \<open>ResearchAgent\<close>

text \<open>
  C2. \<^verbatim>\<open>ResearchAgent.validate_output\<close> returns false for every output that lacks one of
  the keys \<^verbatim>\<open>facts\<close>, \<^verbatim>\<open>sources\<close>, \<^verbatim>\<open>metadata\<close>, whose facts or sources list is
  empty, or that has more facts than sources; it returns true for every output with the
  three keys whose two lists are non-empty, with at least as many sources as facts.
\<close>

theorem research_validate_output:
  "(\<not> contains output ''facts'' \<or> \<not> contains output ''sources'' \<or> \<not> contains output ''metadata''
      \<longrightarrow> ResearchAgent_validate_output output = Inr False) \<and>
   (getitem output ''facts'' = Inr (PList []) \<or> getitem output ''sources'' = Inr (PList [])
      \<longrightarrow> ResearchAgent_validate_output output = Inr False) \<and>
   (\<forall>fs ss. getitem output ''facts'' = Inr (PList fs) \<and> getitem output ''sources'' = Inr (PList ss) \<and>
        length fs > length ss
      \<longrightarrow> ResearchAgent_validate_output output = Inr False) \<and>
   (\<forall>fs ss. contains output ''metadata'' \<and>
        getitem output ''facts'' = Inr (PList fs) \<and> getitem output ''sources'' = Inr (PList ss) \<and>
        fs \<noteq> [] \<and> ss \<noteq> [] \<and> length ss \<ge> length fs
      \<longrightarrow> ResearchAgent_validate_output output = Inr True)"
  by (auto simp: ResearchAgent_validate_output_def contains_def getitem_def pbind_def Let_def
           split: option.splits)

text \<open>
  The instances: the example of the specification (two facts, one source), and the three
  outputs of \<^verbatim>\<open>test_research_agent_validate_output\<close>.
\<close>

theorem research_validate_output_witness:
  "ResearchAgent_validate_output
     [(''facts'', PList [PStr ''a'', PStr ''b'']), (''sources'', PList [PStr ''x'']),
      (''metadata'', PDict [])] = Inr False \<and>
   ResearchAgent_validate_output
     [(''facts'', PList [PStr ''Fact 1'', PStr ''Fact 2'']),
      (''sources'', PList [PStr ''Source 1'', PStr ''Source 2'']),
      (''metadata'', PDict [(''topic'', PStr ''Test Topic'')])] = Inr True \<and>
   ResearchAgent_validate_output
     [(''facts'', PList [PStr ''Fact 1'']), (''sources'', PList [PStr ''Source 1''])] = Inr False \<and>
   ResearchAgent_validate_output
     [(''facts'', PList []), (''sources'', PList [PStr ''Source 1'']), (''metadata'', PDict [])]
       = Inr False"
  using
    research_validate_output [of "[(''facts'', PList [PStr ''a'', PStr ''b'']),
      (''sources'', PList [PStr ''x'']), (''metadata'', PDict [])]"]
    research_validate_output [of "[(''facts'', PList [PStr ''Fact 1'', PStr ''Fact 2'']),
      (''sources'', PList [PStr ''Source 1'', PStr ''Source 2'']),
      (''metadata'', PDict [(''topic'', PStr ''Test Topic'')])]"]
    research_validate_output [of "[(''facts'', PList [PStr ''Fact 1'']),
      (''sources'', PList [PStr ''Source 1''])]"]
    research_validate_output [of "[(''facts'', PList []), (''sources'', PList [PStr ''Source 1'']),
      (''metadata'', PDict [])]"]
  by (simp add: contains_def getitem_def)

lemma in_force_Nil: "in_force H [] = H"
  by (simp add: in_force_def)

lemma in_force_Cons: "in_force H (l # ls) = in_force (if is_header l then Some l else H) ls"
  by (simp add: in_force_def Let_def)

lemma sel_Nil: "sel header H [] = []"
  by (simp add: sel_def)

lemma sel_Cons:
  "sel header H (l # ls) =
     (if startswith l ''- '' \<and> H = Some header then [drop 2 l] else []) @
     sel header (if is_header l then Some l else H) ls"
proof -
  have upt: "[0..<Suc (length ls)] = 0 # map Suc [0..<length ls]"
    by (simp add: upt_conv_Cons map_Suc_upt del: upt_Suc)
  show ?thesis
    unfolding sel_def length_Cons upt
    by (simp add: in_force_Cons in_force_Nil comp_def del: upt_Suc cong: if_cong)
qed

text \<open>The loop, started in any section, appends the items selected from the remaining lines.\<close>

lemma research_loop_sel:
  "research_loop raws cur facts sources =
     (let H = (if cur = Some ''facts'' then Some ''FACTS:''
               else if cur = Some ''sources'' then Some ''SOURCES:'' else None) in
      (facts @ sel ''FACTS:'' H (map strip raws), sources @ sel ''SOURCES:'' H (map strip raws)))"
proof (induction raws arbitrary: cur facts sources)
  case Nil
  show ?case by (simp add: sel_Nil)
next
  case (Cons raw rest)
  show ?case
    by (simp add: Cons.IH sel_Cons Let_def is_header_def startswith_def)
qed

text \<open>
  C10. \<^verbatim>\<open>_process_research\<close> returns as facts exactly the lines prefixed with \<^verbatim>\<open>"- "\<close>
  (prefix removed) that appear while the header \<^verbatim>\<open>FACTS:\<close> is in force, and as sources
  those that appear while \<^verbatim>\<open>SOURCES:\<close> is in force, in their order of appearance; every
  other line, also a \<^verbatim>\<open>"- "\<close> line before any header, contributes nothing.
\<close>

theorem process_research_items:
  "process_research response =
     (items_after ''FACTS:'' response, items_after ''SOURCES:'' response)"
proof -
  have "in_force None = header_in_force"
    by (rule ext) (simp add: in_force_def header_in_force_def)
  then show ?thesis
    unfolding process_research_def items_after_def research_loop_sel
    by (simp add: sel_def Let_def cong: if_cong)
qed

theorem process_research_items_witness:
  "process_research
     (''Intro'' @ [newline] @ ''- early'' @ [newline] @ ''  FACTS: '' @ [newline] @ ''- a'' @
      [newline] @ [newline] @ ''-b'' @ [newline] @ ''SOURCES:'' @ [newline] @ ''- s1'' @
      [newline] @ ''FACTS:'' @ [newline] @ ''- c '') = ([''a'', ''c''], [''s1''])"
proof -
  have "items_after ''FACTS:''
     (''Intro'' @ [newline] @ ''- early'' @ [newline] @ ''  FACTS: '' @ [newline] @ ''- a'' @
      [newline] @ [newline] @ ''-b'' @ [newline] @ ''SOURCES:'' @ [newline] @ ''- s1'' @
      [newline] @ ''FACTS:'' @ [newline] @ ''- c '') = [''a'', ''c'']"
    by code_simp
  moreover have "items_after ''SOURCES:''
     (''Intro'' @ [newline] @ ''- early'' @ [newline] @ ''  FACTS: '' @ [newline] @ ''- a'' @
      [newline] @ [newline] @ ''-b'' @ [newline] @ ''SOURCES:'' @ [newline] @ ''- s1'' @
      [newline] @ ''FACTS:'' @ [newline] @ ''- c '') = [''s1'']"
    by code_simp
  ultimately show ?thesis
    using process_research_items [of
     "''Intro'' @ [newline] @ ''- early'' @ [newline] @ ''  FACTS: '' @ [newline] @ ''- a'' @
      [newline] @ [newline] @ ''-b'' @ [newline] @ ''SOURCES:'' @ [newline] @ ''- s1'' @
      [newline] @ ''FACTS:'' @ [newline] @ ''- c ''"]
    by simp
qed

subsection \<open>ScriptAgent\<close>

text \<open>
  C3. \<^verbatim>\<open>ScriptAgent.validate_output\<close> returns false for every output that lacks one of
  the keys \<^verbatim>\<open>script\<close>, \<^verbatim>\<open>hook\<close>, \<^verbatim>\<open>call_to_action\<close>, \<^verbatim>\<open>metadata\<close>, in which one
  of the three texts is empty, or whose script has fewer than 50 or more than 300
  whitespace-separated words; it returns true for every output with the four keys, three
  non-empty texts and a word count from 50 to 300.
\<close>

theorem script_validate_output:
  "(\<not> contains output ''script'' \<or> \<not> contains output ''hook'' \<or>
    \<not> contains output ''call_to_action'' \<or> \<not> contains output ''metadata''
      \<longrightarrow> ScriptAgent_validate_output output = Inr False) \<and>
   (getitem output ''script'' = Inr (PStr []) \<or> getitem output ''hook'' = Inr (PStr []) \<or>
    getitem output ''call_to_action'' = Inr (PStr [])
      \<longrightarrow> ScriptAgent_validate_output output = Inr False) \<and>
   (\<forall>script. getitem output ''script'' = Inr (PStr script) \<and>
        (length (split_ws script) < 50 \<or> length (split_ws script) > 300)
      \<longrightarrow> ScriptAgent_validate_output output = Inr False) \<and>
   (\<forall>script hook call_to_action. contains output ''metadata'' \<and>
        getitem output ''script'' = Inr (PStr script) \<and> getitem output ''hook'' = Inr (PStr hook) \<and>
        getitem output ''call_to_action'' = Inr (PStr call_to_action) \<and>
        script \<noteq> [] \<and> hook \<noteq> [] \<and> call_to_action \<noteq> [] \<and>
        50 \<le> length (split_ws script) \<and> length (split_ws script) \<le> 300
      \<longrightarrow> ScriptAgent_validate_output output = Inr True)"
  by (auto simp: ScriptAgent_validate_output_def contains_def getitem_def pbind_def Let_def
           split: option.splits)

text \<open>The instances: scripts of 49, 50, 300 and 301 words, an empty hook, a missing key.\<close>

lemma split_ws_word: "split_ws (CHR ''w'' # CHR '' '' # s) = ''w'' # split_ws s"
  by (simp add: split_ws_def is_space_def split: list.splits)

lemma words_wordy: "length (split_ws (wordy n)) = n"
  unfolding wordy_def
  by (induction n) (simp_all add: split_ws_word, simp add: split_ws_def)

lemma wordy_empty: "(wordy n = []) = (n = 0)"
  by (cases n) (simp_all add: wordy_def)

theorem script_validate_output_witness:
  "ScriptAgent_validate_output
     [(''script'', PStr (wordy 49)), (''hook'', PStr ''h''), (''call_to_action'', PStr ''c''),
      (''metadata'', PDict [])] = Inr False \<and>
   ScriptAgent_validate_output
     [(''script'', PStr (wordy 50)), (''hook'', PStr ''h''), (''call_to_action'', PStr ''c''),
      (''metadata'', PDict [])] = Inr True \<and>
   ScriptAgent_validate_output
     [(''script'', PStr (wordy 300)), (''hook'', PStr ''h''), (''call_to_action'', PStr ''c''),
      (''metadata'', PDict [])] = Inr True \<and>
   ScriptAgent_validate_output
     [(''script'', PStr (wordy 301)), (''hook'', PStr ''h''), (''call_to_action'', PStr ''c''),
      (''metadata'', PDict [])] = Inr False \<and>
   ScriptAgent_validate_output
     [(''script'', PStr (wordy 50)), (''hook'', PStr ''''), (''call_to_action'', PStr ''c''),
      (''metadata'', PDict [])] = Inr False \<and>
   ScriptAgent_validate_output
     [(''script'', PStr (wordy 50)), (''hook'', PStr ''h''), (''call_to_action'', PStr ''c'')]
       = Inr False"
  using
    script_validate_output [of "[(''script'', PStr (wordy 49)), (''hook'', PStr ''h''),
      (''call_to_action'', PStr ''c''), (''metadata'', PDict [])]"]
    script_validate_output [of "[(''script'', PStr (wordy 50)), (''hook'', PStr ''h''),
      (''call_to_action'', PStr ''c''), (''metadata'', PDict [])]"]
    script_validate_output [of "[(''script'', PStr (wordy 300)), (''hook'', PStr ''h''),
      (''call_to_action'', PStr ''c''), (''metadata'', PDict [])]"]
    script_validate_output [of "[(''script'', PStr (wordy 301)), (''hook'', PStr ''h''),
      (''call_to_action'', PStr ''c''), (''metadata'', PDict [])]"]
    script_validate_output [of "[(''script'', PStr (wordy 50)), (''hook'', PStr ''''),
      (''call_to_action'', PStr ''c''), (''metadata'', PDict [])]"]
    script_validate_output [of "[(''script'', PStr (wordy 50)), (''hook'', PStr ''h''),
      (''call_to_action'', PStr ''c'')]"]
  by (simp add: contains_def getitem_def words_wordy wordy_empty)

lemma script_loop_no_marker:
  "\<forall>raw\<in>set raws. strip raw \<notin> {''HOOK:'', ''MAIN CONTENT:'', ''CALL TO ACTION:''} \<Longrightarrow>
   script_loop raws script_parts None current_content = script_parts"
  by (induction raws arbitrary: current_content) (auto simp: store_def Let_def)

text \<open>
  C8. If no line of the provider's response is one of the markers \<^verbatim>\<open>HOOK:\<close>,
  \<^verbatim>\<open>MAIN CONTENT:\<close>, \<^verbatim>\<open>CALL TO ACTION:\<close>, then \<^verbatim>\<open>_process_script\<close> returns empty
  hook, main content and call to action; the output \<^verbatim>\<open>process\<close> builds from them is
  rejected by \<^verbatim>\<open>validate_output\<close>, and \<^verbatim>\<open>ScriptAgent.run\<close> returns \<^verbatim>\<open>None\<close>.
\<close>

theorem script_without_markers:
  assumes "\<forall>raw\<in>set (split_sep newline response).
             strip raw \<notin> {''HOOK:'', ''MAIN CONTENT:'', ''CALL TO ACTION:''}"
  shows "process_script response =
           [(''hook'', PStr []), (''main_content'', PStr []), (''call_to_action'', PStr [])] \<and>
         (\<forall>self get_script input_data facts platform style duration.
            getitem input_data ''facts'' = Inr facts \<and>
            getitem input_data ''platform'' = Inr platform \<and>
            getitem input_data ''style'' = Inr style \<and>
            getitem input_data ''duration'' = Inr duration \<and>
            get_script facts platform style duration = Inr response \<longrightarrow>
            (\<exists>output. ScriptAgent_process self get_script input_data = Inr output \<and>
               getitem output ''script'' = Inr (PStr []) \<and>
               getitem output ''hook'' = Inr (PStr []) \<and>
               getitem output ''call_to_action'' = Inr (PStr []) \<and>
               ScriptAgent_validate_output output = Inr False) \<and>
            BaseAgent_run (ScriptAgent_process self get_script) ScriptAgent_validate_output
              input_data = Inr None)"
proof -
  have parts: "process_script response =
      [(''hook'', PStr []), (''main_content'', PStr []), (''call_to_action'', PStr [])]"
    unfolding process_script_def using assms by (rule script_loop_no_marker)
  show ?thesis
    by (simp add: parts ScriptAgent_process_def ScriptAgent_validate_output_def
          BaseAgent_run_def try_except_def pbind_def getitem_def contains_def Let_def)
qed

theorem script_without_markers_witness:
  "process_script (''Sure, here is the script.'' @ [newline] @ ''Hook: did you know?'') =
     [(''hook'', PStr []), (''main_content'', PStr []), (''call_to_action'', PStr [])] \<and>
   BaseAgent_run
     (ScriptAgent_process
        \<lparr>model = PStr ''gpt-4'', max_tokens = PNum 500, temperature = PNum 1\<rparr>
        (\<lambda>facts platform style duration.
           Inr (''Sure, here is the script.'' @ [newline] @ ''Hook: did you know?'')))
     ScriptAgent_validate_output
     [(''facts'', PList [PStr ''a fact'']), (''platform'', PStr ''tiktok''),
      (''style'', PStr ''fast''), (''duration'', PNum 60)] = Inr None"
proof -
  have no_marker:
    "\<forall>raw\<in>set (split_sep newline
        (''Sure, here is the script.'' @ [newline] @ ''Hook: did you know?'')).
       strip raw \<notin> {''HOOK:'', ''MAIN CONTENT:'', ''CALL TO ACTION:''}"
    by (simp add: split_sep_def newline_def strip_def is_space_def)
  from script_without_markers [OF no_marker] show ?thesis
    by (simp add: getitem_def)
qed

subsection \<open>VisualAgent\<close>

lemma prompts_loop_map:
  "prompts_loop self style sentences prompts = prompts @ map (image_prompt self style) sentences"
  by (induction sentences arbitrary: prompts) simp_all

lemma concat_map_if:
  "concat (map (\<lambda>s. if P s then [f s] else []) xs) = map f (filter P xs)"
  by (induction xs) simp_all

text \<open>
  C7, as stated, with the sentences read as the non-empty period-delimited segments, does
  not hold: the script \<^verbatim>\<open>"Hello. "\<close> has the two non-empty segments \<^verbatim>\<open>"Hello"\<close> and
  \<^verbatim>\<open>" "\<close>, and one prompt, since a segment of whitespace only is dropped.
\<close>

theorem image_prompts_one_per_segment_counterexample:
  "length (generate_image_prompts
             \<lparr>provider = ''dalle'', self_style = ''realistic'', image_quality = ''hd''\<rparr>
             ''Hello. '' ''vivid'') = 1 \<and>
   length (period_segments ''Hello. '') = 2 \<and>
   length (generate_image_prompts
             \<lparr>provider = ''dalle'', self_style = ''realistic'', image_quality = ''hd''\<rparr>
             ''Hello. '' ''vivid'') \<noteq> length (period_segments ''Hello. '')"
  by (simp add: generate_image_prompts_def period_segments_def split_sep_def strip_def
        is_space_def)

text \<open>
  C7, amended. \<^verbatim>\<open>_generate_image_prompts\<close> produces exactly one prompt per sentence,
  the sentences being the period-delimited segments that are not empty once surrounding
  whitespace is removed, each without that whitespace, in order; and two invocations with
  the same script and style (on the same agent) return the same list of prompts.
\<close>

theorem image_prompts_per_sentence:
  "generate_image_prompts self script style =
     map (\<lambda>s. image_prompt self style (strip s))
       (filter (\<lambda>s. strip s \<noteq> []) (split_sep CHR ''.'' script)) \<and>
   length (generate_image_prompts self script style) =
     length (filter (\<lambda>s. strip s \<noteq> []) (split_sep CHR ''.'' script)) \<and>
   (script' = script \<and> style' = style \<longrightarrow>
      generate_image_prompts self script' style' = generate_image_prompts self script style)"
  by (simp add: generate_image_prompts_def prompts_loop_map concat_map_if comp_def)

theorem image_prompts_per_sentence_witness:
  "generate_image_prompts
     \<lparr>provider = ''dalle'', self_style = ''realistic'', image_quality = ''hd''\<rparr>
     ''One. Two. '' ''vivid'' =
   [image_prompt \<lparr>provider = ''dalle'', self_style = ''realistic'', image_quality = ''hd''\<rparr>
      ''vivid'' ''One'',
    image_prompt \<lparr>provider = ''dalle'', self_style = ''realistic'', image_quality = ''hd''\<rparr>
      ''vivid'' ''Two'']"
  using image_prompts_per_sentence [of
     "\<lparr>provider = ''dalle'', self_style = ''realistic'', image_quality = ''hd''\<rparr>"
     "''One. Two. ''" "''vivid''" "''One. Two. ''" "''vivid''"]
  by (simp add: split_sep_def strip_def is_space_def)

subsection \<open>EditorAgent\<close>

lemma for_each_error:
  "for_each f xs = Inl e \<Longrightarrow> \<exists>x\<in>set xs. f x = Inl e"
  by (induction xs) (auto simp: pbind_def split: sum.splits)

lemma for_each_clips:
  "for_each (\<lambda>image_path. pbind (ImageClip load_error image_path) (\<lambda>c. Inr (set_duration c d))) ps = Inr clips
   \<Longrightarrow> clips = map (\<lambda>p. \<lparr>clip_source = p, clip_duration = d\<rparr>) ps"
  by (induction ps arbitrary: clips)
     (auto simp: pbind_def ImageClip_def set_duration_def split: sum.splits option.splits)

lemma for_each_loaded:
  "\<forall>p\<in>set ps. load_error p = None \<Longrightarrow>
   for_each (\<lambda>image_path. pbind (ImageClip load_error image_path) (\<lambda>c. Inr (set_duration c d))) ps
     = Inr (map (\<lambda>p. \<lparr>clip_source = p, clip_duration = d\<rparr>) ps)"
  by (induction ps) (auto simp: pbind_def ImageClip_def set_duration_def)

text \<open>
  C6. For every non-empty list of image paths and every total duration, each clip that
  \<^verbatim>\<open>_create_video_clips\<close> returns has the duration \<^verbatim>\<open>total_duration / len(image_paths)\<close>,
  one clip per image in the order of the paths; the list is returned whenever every
  image can be loaded.
\<close>

theorem clip_durations:
  assumes "ps \<noteq> []"
  shows "(\<forall>clips. create_video_clips load_error (PList ps) (PNum t) = Inr clips \<longrightarrow>
            length clips = length ps \<and>
            map clip_source clips = ps \<and>
            (\<forall>c\<in>set clips. clip_duration c = PNum (t / real (length ps)))) \<and>
         ((\<forall>p\<in>set ps. load_error p = None) \<longrightarrow>
            create_video_clips load_error (PList ps) (PNum t) =
              Inr (map (\<lambda>p. \<lparr>clip_source = p, clip_duration = PNum (t / real (length ps))\<rparr>) ps))"
proof -
  have eq: "create_video_clips load_error (PList ps) (PNum t) =
      for_each (\<lambda>image_path. pbind (ImageClip load_error image_path)
          (\<lambda>c. Inr (set_duration c (PNum (t / real (length ps)))))) ps"
    using assms by (simp add: create_video_clips_def pbind_def)
  show ?thesis
    unfolding eq
    by (auto dest!: for_each_clips simp: for_each_loaded comp_def)
qed

theorem clip_durations_witness:
  "create_video_clips (\<lambda>p. None) (PList [PStr ''a.png'', PStr ''b.png'', PStr ''c.png''])
     (PNum 60) =
   Inr [\<lparr>clip_source = PStr ''a.png'', clip_duration = PNum 20\<rparr>,
        \<lparr>clip_source = PStr ''b.png'', clip_duration = PNum 20\<rparr>,
        \<lparr>clip_source = PStr ''c.png'', clip_duration = PNum 20\<rparr>]"
  using clip_durations [of "[PStr ''a.png'', PStr ''b.png'', PStr ''c.png'']" "\<lambda>p. None" 60]
  by simp

subsection \<open>ContentGenerator\<close>

lemma sbind_lift:
  "sbind (lift m) f calls = (case m of Inl e \<Rightarrow> (Inl e, calls) | Inr x \<Rightarrow> f x calls)"
  by (simp add: sbind_def lift_def split: sum.splits)

lemma sbind_invoke:
  "sbind (invoke s run input_data) f calls =
     f (run input_data)
       (calls @ [\<lparr>call_stage = s, call_input = input_data, call_result = run input_data\<rparr>])"
  by (simp add: sbind_def invoke_def Let_def)

lemma getitem_Inl: "(getitem d k = Inl e) = (e = KeyError k \<and> \<not> contains d k)"
  by (auto simp: getitem_def contains_def split: option.splits)

lemma py_getitem_case:
  "py_getitem v key = (case v of PDict d \<Rightarrow> getitem d key | _ \<Rightarrow> Inl TypeError)"
  by (cases v) simp_all

lemma getitem_Cons: "getitem ((k, v) # d) key = (if k = key then Inr v else getitem d key)"
  by (simp add: getitem_def)

text \<open>The three example runs: Research fails, Voice fails, no stage fails.\<close>

lemma run_research_fails:
  "generate_content example_config (mocks [Research]) ''Ancient Egyptian Pyramids''
     ''youtube_shorts'' = (Inr None, [example_call Research None])"
  by (simp add: generate_content_def generate_content_body_def sbind_lift sbind_invoke lift_def
        require_def pbind_def try_except_def getitem_def example_config_def mocks_def mock_def
        example_call_def)

lemma run_voice_fails:
  "generate_content example_config (mocks [Voice, Editor]) ''Ancient Egyptian Pyramids''
     ''youtube_shorts'' =
   (Inr None,
    [example_call Research (Some (canned Research)), example_call Script (Some (canned Script)),
     example_call Voice None])"
  by (simp add: generate_content_def generate_content_body_def sbind_lift sbind_invoke lift_def
        require_def pbind_def try_except_def getitem_def example_config_def mocks_def mock_def
        example_call_def)

lemma run_succeeds:
  "generate_content example_config (mocks []) ''Ancient Egyptian Pyramids''
     ''youtube_shorts'' =
   (Inr (Some [(''video_path'', PStr ''final.mp4''),
      (''metadata'', PDict [(''topic'', PStr ''Ancient Egyptian Pyramids''),
         (''platform'', PStr ''youtube_shorts''),
         (''research'', PDict [(''model'', PStr ''llama2'')]),
         (''script'', PDict [(''model'', PStr ''gpt-4'')]),
         (''voice'', PDict [(''voice_id'', PStr ''en-US'')]),
         (''visual'', PDict [(''provider'', PStr ''dalle'')]),
         (''editor'', PDict [(''video_quality'', PStr ''high'')])])]),
    [example_call Research (Some (canned Research)), example_call Script (Some (canned Script)),
     example_call Voice (Some (canned Voice)), example_call Visual (Some (canned Visual)),
     example_call Editor (Some (canned Editor))])"
  by (simp add: generate_content_def generate_content_body_def sbind_lift sbind_invoke lift_def
        require_def pbind_def try_except_def getitem_def example_config_def mocks_def mock_def
        example_call_def)

text \<open>Every path through \<^verbatim>\<open>generate_content\<close>, followed bind by bind.\<close>

lemma abort_shape:
  "(case generate_content config agents topic platform of (result, calls) \<Rightarrow>
     (\<exists>r. result = Inr r) \<and>
     (\<forall>c\<in>set (butlast calls). call_result c \<noteq> None) \<and>
     ((\<exists>c\<in>set calls. call_result c = None) \<longrightarrow> result = Inr None) \<and>
     map call_stage calls = take (length calls) [Research, Script, Voice, Visual, Editor] \<and>
     ((\<exists>c\<in>set calls. call_stage c = Research \<and> call_result c = None) \<longrightarrow>
        map call_stage calls = [Research]))"
  unfolding generate_content_def generate_content_body_def
  by (simp add: sbind_lift sbind_invoke lift_def require_def pbind_def try_except_def
        py_getitem_case getitem_Inl
        split: sum.splits option.splits pyval.splits)
     auto

lemma editor_input_shape:
  "(case generate_content config agents topic platform of (result, calls) \<Rightarrow>
     \<forall>c\<in>set calls. call_stage c = Editor \<longrightarrow>
       (\<exists>v\<in>set calls. call_stage v = Visual \<and>
          (\<exists>output. visual_run agents (call_input v) = Some output \<and>
             getitem (call_input c) ''image_paths'' = getitem output ''image_paths'')))"
  unfolding generate_content_def generate_content_body_def
  by (simp add: sbind_lift sbind_invoke lift_def require_def pbind_def try_except_def
        py_getitem_case getitem_Cons
        split: sum.splits option.splits pyval.splits)

text \<open>
  C4. In every run of \<^verbatim>\<open>generate_content\<close>, a call of an agent's \<^verbatim>\<open>run\<close> that returns
  \<^verbatim>\<open>None\<close> is the last call of the run: no later stage is invoked (the stages are
  invoked in pipeline order, so if Research returns \<^verbatim>\<open>None\<close>, it is the only call and
  Script, Voice, Visual and Editor are never invoked), and \<^verbatim>\<open>generate_content\<close> returns
  \<^verbatim>\<open>None\<close>. No exception leaves \<^verbatim>\<open>generate_content\<close> in any run.
\<close>

theorem pipeline_abort:
  assumes "generate_content config agents topic platform = (result, calls)"
  shows "(\<exists>r. result = Inr r) \<and>
         (\<forall>c\<in>set (butlast calls). call_result c \<noteq> None) \<and>
         ((\<exists>c\<in>set calls. call_result c = None) \<longrightarrow> result = Inr None) \<and>
         map call_stage calls = take (length calls) [Research, Script, Voice, Visual, Editor] \<and>
         ((\<exists>c\<in>set calls. call_stage c = Research \<and> call_result c = None) \<longrightarrow>
            map call_stage calls = [Research])"
proof -
  from abort_shape [where config = config and agents = agents and topic = topic and
      platform = platform]
  show ?thesis unfolding assms prod.case .
qed

theorem pipeline_abort_witness:
  "generate_content example_config (mocks [Research]) ''Ancient Egyptian Pyramids''
     ''youtube_shorts'' = (Inr None, [example_call Research None]) \<and>
   generate_content example_config (mocks [Voice, Editor]) ''Ancient Egyptian Pyramids''
     ''youtube_shorts'' =
   (Inr None,
    [example_call Research (Some (canned Research)), example_call Script (Some (canned Script)),
     example_call Voice None]) \<and>
   map call_stage [example_call Research None] = [Research] \<and>
   map call_stage
     [example_call Research (Some (canned Research)), example_call Script (Some (canned Script)),
      example_call Voice None] = [Research, Script, Voice]"
  using pipeline_abort [OF run_research_fails] pipeline_abort [OF run_voice_fails]
    run_research_fails run_voice_fails
  by (simp add: example_call_def)

lemma contains_getitem: "contains d k \<Longrightarrow> \<exists>v. getitem d k = Inr v"
  by (auto simp: contains_def getitem_def)

lemma contains_nonempty: "contains d k \<Longrightarrow> d \<noteq> []"
  by (auto simp: contains_def)

text \<open>
  C5. In every run of \<^verbatim>\<open>generate_content\<close> whose configuration has the platform with
  its style, maximal duration and aspect ratio, and in which each of the five agents, on
  the input the orchestrator builds for it, returns an output with the keys its stage
  requires, the five stages are invoked in order and the result carries the
  \<^verbatim>\<open>video_path\<close> of the Editor's output and a metadata dictionary with the topic, the
  platform and the metadata of the five stages under the stage names, in the order
  research, script, voice, visual, editor.
\<close>

theorem pipeline_result:
  assumes platforms: "getitem config ''platforms'' = Inr platforms"
    and platform_config: "py_getitem platforms platform = Inr platform_config"
    and style: "py_getitem platform_config ''style'' = Inr style"
    and max_duration: "py_getitem platform_config ''max_duration'' = Inr max_duration"
    and aspect_ratio: "py_getitem platform_config ''aspect_ratio'' = Inr aspect_ratio"
    and research: "research_run agents
        [(''topic'', PStr topic), (''platform'', PStr platform), (''style'', style)] = Some r"
      "list_all (\<lambda>key. contains r key) (required_keys Research)"
      "getitem r ''facts'' = Inr facts"
    and script: "script_run agents
        [(''facts'', facts), (''platform'', PStr platform), (''style'', style),
         (''duration'', max_duration)] = Some s"
      "list_all (\<lambda>key. contains s key) (required_keys Script)"
      "getitem s ''script'' = Inr script"
    and voice: "voice_run agents
        [(''script'', script), (''platform'', PStr platform), (''style'', style)] = Some v"
      "list_all (\<lambda>key. contains v key) (required_keys Voice)"
      "getitem v ''audio_path'' = Inr audio_path"
    and visual: "visual_run agents
        [(''script'', script), (''platform'', PStr platform), (''style'', style),
         (''aspect_ratio'', aspect_ratio)] = Some i"
      "list_all (\<lambda>key. contains i key) (required_keys Visual)"
      "getitem i ''image_paths'' = Inr image_paths"
    and editor: "editor_run agents
        [(''image_paths'', image_paths), (''audio_path'', audio_path),
         (''platform'', PStr platform), (''duration'', max_duration),
         (''aspect_ratio'', aspect_ratio)] = Some e"
      "list_all (\<lambda>key. contains e key) (required_keys Editor)"
  shows "\<exists>video_path rm sm vm im em.
           getitem e ''video_path'' = Inr video_path \<and>
           getitem r ''metadata'' = Inr rm \<and> getitem s ''metadata'' = Inr sm \<and>
           getitem v ''metadata'' = Inr vm \<and> getitem i ''metadata'' = Inr im \<and>
           getitem e ''metadata'' = Inr em \<and>
           fst (generate_content config agents topic platform) =
             Inr (Some [(''video_path'', video_path),
                        (''metadata'', PDict [(''topic'', PStr topic),
                           (''platform'', PStr platform),
                           (''research'', rm), (''script'', sm), (''voice'', vm),
                           (''visual'', im), (''editor'', em)])]) \<and>
           map call_stage (snd (generate_content config agents topic platform)) =
             [Research, Script, Voice, Visual, Editor] \<and>
           map call_result (snd (generate_content config agents topic platform)) =
             [Some r, Some s, Some v, Some i, Some e]"
proof -
  from research(2) obtain rm where rm: "getitem r ''metadata'' = Inr rm"
    by (auto dest: contains_getitem)
  from script(2) obtain sm where sm: "getitem s ''metadata'' = Inr sm"
    by (auto dest: contains_getitem)
  from voice(2) obtain vm where vm: "getitem v ''metadata'' = Inr vm"
    by (auto dest: contains_getitem)
  from visual(2) obtain im where im: "getitem i ''metadata'' = Inr im"
    by (auto dest: contains_getitem)
  from editor(2) obtain em where em: "getitem e ''metadata'' = Inr em"
    by (auto dest: contains_getitem)
  from editor(2) obtain video_path where video_path: "getitem e ''video_path'' = Inr video_path"
    by (auto dest: contains_getitem)
  have nonempty: "r \<noteq> []" "s \<noteq> []" "v \<noteq> []" "i \<noteq> []" "e \<noteq> []"
    using research(2) script(2) voice(2) visual(2) editor(2)
    by (auto dest: contains_nonempty)
  have "generate_content config agents topic platform =
      (Inr (Some [(''video_path'', video_path),
                  (''metadata'', PDict [(''topic'', PStr topic),
                     (''platform'', PStr platform),
                     (''research'', rm), (''script'', sm), (''voice'', vm),
                     (''visual'', im), (''editor'', em)])]),
       [\<lparr>call_stage = Research, call_input =
           [(''topic'', PStr topic), (''platform'', PStr platform), (''style'', style)],
          call_result = Some r\<rparr>,
        \<lparr>call_stage = Script, call_input =
           [(''facts'', facts), (''platform'', PStr platform), (''style'', style),
            (''duration'', max_duration)],
          call_result = Some s\<rparr>,
        \<lparr>call_stage = Voice, call_input =
           [(''script'', script), (''platform'', PStr platform), (''style'', style)],
          call_result = Some v\<rparr>,
        \<lparr>call_stage = Visual, call_input =
           [(''script'', script), (''platform'', PStr platform), (''style'', style),
            (''aspect_ratio'', aspect_ratio)],
          call_result = Some i\<rparr>,
        \<lparr>call_stage = Editor, call_input =
           [(''image_paths'', image_paths), (''audio_path'', audio_path),
            (''platform'', PStr platform), (''duration'', max_duration),
            (''aspect_ratio'', aspect_ratio)],
          call_result = Some e\<rparr>])"
    unfolding generate_content_def generate_content_body_def
    by (simp add: sbind_lift sbind_invoke lift_def require_def pbind_def try_except_def
          platforms platform_config style max_duration aspect_ratio
          research(1,3) script(1,3) voice(1,3) visual(1,3) editor(1)
          rm sm vm im em video_path nonempty)
  with rm sm vm im em video_path show ?thesis by simp
qed

text \<open>
  The end-to-end scenario: the five mocks return their canned outputs, which the
  validation of each stage accepts when the files exist.
\<close>

lemma canned_accepted:
  "ResearchAgent_validate_output (canned Research) = Inr True"
  "ScriptAgent_validate_output (canned Script) = Inr True"
  "VoiceAgent_validate_output (\<lambda>p. Inr True) (canned Voice) = Inr True"
  "VisualAgent_validate_output (\<lambda>p. Inr True) (\<lambda>p. Inr ()) (canned Visual) = Inr True"
  "EditorAgent_validate_output (\<lambda>p. Inr True) (\<lambda>p. Inr 60) (canned Editor) = Inr True"
  by (simp_all add: ResearchAgent_validate_output_def ScriptAgent_validate_output_def
        VoiceAgent_validate_output_def VisualAgent_validate_output_def
        EditorAgent_validate_output_def contains_def getitem_def pbind_def try_except_def
        words_wordy wordy_empty)

theorem pipeline_result_witness:
  "fst (generate_content example_config (mocks []) ''Ancient Egyptian Pyramids''
          ''youtube_shorts'') =
   Inr (Some [(''video_path'', PStr ''final.mp4''),
      (''metadata'', PDict [(''topic'', PStr ''Ancient Egyptian Pyramids''),
         (''platform'', PStr ''youtube_shorts''),
         (''research'', PDict [(''model'', PStr ''llama2'')]),
         (''script'', PDict [(''model'', PStr ''gpt-4'')]),
         (''voice'', PDict [(''voice_id'', PStr ''en-US'')]),
         (''visual'', PDict [(''provider'', PStr ''dalle'')]),
         (''editor'', PDict [(''video_quality'', PStr ''high'')])])]) \<and>
   map call_stage (snd (generate_content example_config (mocks [])
     ''Ancient Egyptian Pyramids'' ''youtube_shorts'')) =
     [Research, Script, Voice, Visual, Editor]"
proof -
  have platforms: "getitem example_config ''platforms'' =
      Inr (PDict [(''youtube_shorts'',
         PDict [(''style'', PStr ''educational''), (''max_duration'', PNum 60),
                (''aspect_ratio'', PStr ''9:16'')])])"
    by (simp add: example_config_def getitem_def)
  have platform_config: "py_getitem (PDict [(''youtube_shorts'',
         PDict [(''style'', PStr ''educational''), (''max_duration'', PNum 60),
                (''aspect_ratio'', PStr ''9:16'')])]) ''youtube_shorts'' =
      Inr (PDict [(''style'', PStr ''educational''), (''max_duration'', PNum 60),
                (''aspect_ratio'', PStr ''9:16'')])"
    by (simp add: getitem_def)
  have style: "py_getitem (PDict [(''style'', PStr ''educational''), (''max_duration'', PNum 60),
      (''aspect_ratio'', PStr ''9:16'')]) ''style'' = Inr (PStr ''educational'')"
    by (simp add: getitem_def)
  have max_duration: "py_getitem (PDict [(''style'', PStr ''educational''),
      (''max_duration'', PNum 60), (''aspect_ratio'', PStr ''9:16'')]) ''max_duration'' =
      Inr (PNum 60)"
    by (simp add: getitem_def)
  have aspect_ratio: "py_getitem (PDict [(''style'', PStr ''educational''),
      (''max_duration'', PNum 60), (''aspect_ratio'', PStr ''9:16'')]) ''aspect_ratio'' =
      Inr (PStr ''9:16'')"
    by (simp add: getitem_def)
  have returned: "research_run (mocks []) input_data = Some (canned Research)"
    "script_run (mocks []) input_data = Some (canned Script)"
    "voice_run (mocks []) input_data = Some (canned Voice)"
    "visual_run (mocks []) input_data = Some (canned Visual)"
    "editor_run (mocks []) input_data = Some (canned Editor)" for input_data
    by (simp_all add: mocks_def mock_def)
  have valid: "list_all (\<lambda>key. contains (canned st) key) (required_keys st)" for st
    by (cases st) (simp_all add: contains_def)
  have used: "getitem (canned Research) ''facts'' = Inr (PList [PStr ''fact''])"
    "getitem (canned Script) ''script'' = Inr (PStr (wordy 50))"
    "getitem (canned Voice) ''audio_path'' = Inr (PStr ''voice.mp3'')"
    "getitem (canned Visual) ''image_paths'' = Inr (PList [PStr ''image_0.png''])"
    by (simp_all add: getitem_def)
  from pipeline_result [OF platforms platform_config style max_duration aspect_ratio
      returned(1) valid used(1) returned(2) valid used(2) returned(3) valid used(3)
      returned(4) valid used(4) returned(5) valid]
  show ?thesis
    by (simp add: getitem_def)
qed

subsection \<open>The editor's division\<close>

lemma truthy_len:
  "truthy v \<Longrightarrow> py_len v = Inr n \<Longrightarrow> 0 < n"
  by (cases v) auto

lemma create_video_clips_no_zero_division:
  assumes "truthy image_paths" and "\<forall>p. load_error p \<noteq> Some ZeroDivisionError"
  shows "create_video_clips load_error image_paths total_duration \<noteq> Inl ZeroDivisionError"
proof
  assume raised: "create_video_clips load_error image_paths total_duration = Inl ZeroDivisionError"
  show False
  proof (cases "py_len image_paths")
    case (Inl e)
    then have "e = TypeError" by (cases image_paths) auto
    with Inl raised show False by (simp add: create_video_clips_def pbind_def)
  next
    case (Inr n)
    with assms(1) have pos: "0 < n" by (rule truthy_len)
    obtain items where items: "py_iter image_paths = Inr items"
      using Inr by (cases image_paths) auto
    show False
    proof (cases "py_truediv total_duration (PNum (real n))")
      case (Inl e)
      with pos have "e = TypeError" by (cases total_duration) auto
      with Inl Inr raised show False by (simp add: create_video_clips_def pbind_def)
    next
      case quotient: (Inr d)
      with raised Inr items have "for_each (\<lambda>image_path.
           pbind (ImageClip load_error image_path) (\<lambda>c. Inr (set_duration c d))) items
             = Inl ZeroDivisionError"
        by (simp add: create_video_clips_def pbind_def)
      then obtain p where
        "pbind (ImageClip load_error p) (\<lambda>c. Inr (set_duration c d)) = Inl ZeroDivisionError"
        by (blast dest: for_each_error)
      then have "load_error p = Some ZeroDivisionError"
        by (auto simp: pbind_def ImageClip_def split: option.splits)
      with assms(2) show False by simp
    qed
  qed
qed

lemma visual_valid_truthy:
  "VisualAgent_validate_output path_exists image_open output = Inr True \<Longrightarrow>
   \<exists>v. getitem output ''image_paths'' = Inr v \<and> truthy v"
  by (auto simp: VisualAgent_validate_output_def contains_def getitem_def pbind_def Let_def
           split: option.splits if_splits)

text \<open>
  C9. \<^verbatim>\<open>_create_video_clips\<close> divides by the length of the image list without a guard:
  on an empty list it raises \<^verbatim>\<open>ZeroDivisionError\<close>, which \<^verbatim>\<open>process\<close> passes on and
  \<^verbatim>\<open>run\<close> turns into \<^verbatim>\<open>None\<close>. On a non-empty list the quotient is defined and the
  method does not raise that error (as long as moviepy does not). An output that
  \<^verbatim>\<open>VisualAgent.validate_output\<close> accepts has a non-empty \<^verbatim>\<open>image_paths\<close>; in a run of
  the pipeline whose Visual agent returns only outputs its validation accepts, the Editor
  receives such an \<^verbatim>\<open>image_paths\<close>, so the division never raises there.
\<close>

theorem editor_division:
  "create_video_clips load_error (PList []) (PNum t) = Inl ZeroDivisionError \<and>
   (getitem input_data ''image_paths'' = Inr (PList []) \<and>
    contains input_data ''audio_path'' \<and> contains input_data ''platform'' \<and>
    getitem input_data ''duration'' = Inr (PNum t) \<and> contains input_data ''aspect_ratio'' \<longrightarrow>
      EditorAgent_process self load_error write_video input_data = Inl ZeroDivisionError \<and>
      BaseAgent_run (EditorAgent_process self load_error write_video)
        (EditorAgent_validate_output path_exists video_duration) input_data = Inr None) \<and>
   (\<forall>ps. ps \<noteq> [] \<longrightarrow>
      py_truediv (PNum t) (PNum (real (length ps))) = Inr (PNum (t / real (length ps))) \<and>
      ((\<forall>p. load_error p \<noteq> Some ZeroDivisionError) \<longrightarrow>
         create_video_clips load_error (PList ps) (PNum t) \<noteq> Inl ZeroDivisionError)) \<and>
   (\<forall>output. VisualAgent_validate_output path_exists image_open output = Inr True \<longrightarrow>
      (\<exists>image_paths. getitem output ''image_paths'' = Inr image_paths \<and>
         image_paths \<noteq> PList [] \<and>
         ((\<forall>p. load_error p \<noteq> Some ZeroDivisionError) \<longrightarrow>
            create_video_clips load_error image_paths (PNum t) \<noteq> Inl ZeroDivisionError))) \<and>
   (\<forall>config agents topic platform result calls.
      generate_content config agents topic platform = (result, calls) \<and>
      (\<forall>visual_input output. visual_run agents visual_input = Some output \<longrightarrow>
         VisualAgent_validate_output path_exists image_open output = Inr True) \<longrightarrow>
      (\<forall>c\<in>set calls. call_stage c = Editor \<longrightarrow>
         (\<exists>image_paths. getitem (call_input c) ''image_paths'' = Inr image_paths \<and>
            image_paths \<noteq> PList [] \<and>
            (\<forall>total_duration. (\<forall>p. load_error p \<noteq> Some ZeroDivisionError) \<longrightarrow>
               create_video_clips load_error image_paths total_duration
                 \<noteq> Inl ZeroDivisionError))))"
proof -
  have empty: "create_video_clips load_error (PList []) (PNum t) = Inl ZeroDivisionError"
    by (simp add: create_video_clips_def pbind_def)
  have absorbed: "getitem input_data ''image_paths'' = Inr (PList []) \<and>
    contains input_data ''audio_path'' \<and> contains input_data ''platform'' \<and>
    getitem input_data ''duration'' = Inr (PNum t) \<and> contains input_data ''aspect_ratio'' \<longrightarrow>
      EditorAgent_process self load_error write_video input_data = Inl ZeroDivisionError \<and>
      BaseAgent_run (EditorAgent_process self load_error write_video)
        (EditorAgent_validate_output path_exists video_duration) input_data = Inr None"
    by (auto simp: EditorAgent_process_def BaseAgent_run_def try_except_def empty pbind_def
          contains_def getitem_def split: option.splits)
  have nonempty: "\<forall>ps. ps \<noteq> [] \<longrightarrow>
      py_truediv (PNum t) (PNum (real (length ps))) = Inr (PNum (t / real (length ps))) \<and>
      ((\<forall>p. load_error p \<noteq> Some ZeroDivisionError) \<longrightarrow>
         create_video_clips load_error (PList ps) (PNum t) \<noteq> Inl ZeroDivisionError)"
    by (auto dest: create_video_clips_no_zero_division [of "PList ps" load_error for ps, rotated])
  have valid: "\<exists>image_paths. getitem out ''image_paths'' = Inr image_paths \<and>
         image_paths \<noteq> PList [] \<and>
         (\<forall>total_duration. (\<forall>p. load_error p \<noteq> Some ZeroDivisionError) \<longrightarrow>
            create_video_clips load_error image_paths total_duration \<noteq> Inl ZeroDivisionError)"
    if "VisualAgent_validate_output path_exists image_open out = Inr True" for out
  proof -
    from that obtain v where v: "getitem out ''image_paths'' = Inr v" "truthy v"
      by (blast dest: visual_valid_truthy)
    from v(2) have "v \<noteq> PList []" by auto
    moreover from v(2) have "\<forall>total_duration. (\<forall>p. load_error p \<noteq> Some ZeroDivisionError) \<longrightarrow>
        create_video_clips load_error v total_duration \<noteq> Inl ZeroDivisionError"
      by (intro allI impI) (rule create_video_clips_no_zero_division)
    ultimately show ?thesis using v(1) by (intro exI [of _ v]) simp
  qed
  have accepted: "\<forall>output. VisualAgent_validate_output path_exists image_open output = Inr True \<longrightarrow>
      (\<exists>image_paths. getitem output ''image_paths'' = Inr image_paths \<and>
         image_paths \<noteq> PList [] \<and>
         ((\<forall>p. load_error p \<noteq> Some ZeroDivisionError) \<longrightarrow>
            create_video_clips load_error image_paths (PNum t) \<noteq> Inl ZeroDivisionError))"
  proof (intro allI impI)
    fix out
    assume "VisualAgent_validate_output path_exists image_open out = Inr True"
    from valid [OF this] obtain v where "getitem out ''image_paths'' = Inr v"
      and "v \<noteq> PList []"
      and "\<forall>total_duration. (\<forall>p. load_error p \<noteq> Some ZeroDivisionError) \<longrightarrow>
            create_video_clips load_error v total_duration \<noteq> Inl ZeroDivisionError"
      by (elim exE conjE)
    then show "\<exists>image_paths. getitem out ''image_paths'' = Inr image_paths \<and>
         image_paths \<noteq> PList [] \<and>
         ((\<forall>p. load_error p \<noteq> Some ZeroDivisionError) \<longrightarrow>
            create_video_clips load_error image_paths (PNum t) \<noteq> Inl ZeroDivisionError)"
      by (intro exI [of _ v]) simp
  qed
  have pipeline: "\<forall>config agents topic platform result calls.
      generate_content config agents topic platform = (result, calls) \<and>
      (\<forall>visual_input output. visual_run agents visual_input = Some output \<longrightarrow>
         VisualAgent_validate_output path_exists image_open output = Inr True) \<longrightarrow>
      (\<forall>c\<in>set calls. call_stage c = Editor \<longrightarrow>
         (\<exists>image_paths. getitem (call_input c) ''image_paths'' = Inr image_paths \<and>
            image_paths \<noteq> PList [] \<and>
            (\<forall>total_duration. (\<forall>p. load_error p \<noteq> Some ZeroDivisionError) \<longrightarrow>
               create_video_clips load_error image_paths total_duration
                 \<noteq> Inl ZeroDivisionError)))"
  proof (intro allI impI ballI, elim conjE)
    fix config agents topic platform result calls and c :: call
    assume run: "generate_content config agents topic platform = (result, calls)"
      and validated: "\<forall>visual_input output. visual_run agents visual_input = Some output \<longrightarrow>
         VisualAgent_validate_output path_exists image_open output = Inr True"
      and c: "c \<in> set calls" "call_stage c = Editor"
    have shape: "\<forall>c\<in>set calls. call_stage c = Editor \<longrightarrow>
       (\<exists>v\<in>set calls. call_stage v = Visual \<and>
          (\<exists>output. visual_run agents (call_input v) = Some output \<and>
             getitem (call_input c) ''image_paths'' = getitem output ''image_paths''))"
      using editor_input_shape [where config = config and agents = agents and topic = topic and
        platform = platform]
      unfolding run prod.case .
    from bspec [OF shape c(1)] c(2)
    obtain v :: call and out where produced: "visual_run agents (call_input v) = Some out"
      and same: "getitem (call_input c) ''image_paths'' = getitem out ''image_paths''"
      by (elim impE bexE exE conjE)
    from validated produced
    have "VisualAgent_validate_output path_exists image_open out = Inr True"
      by (elim allE impE)
    from valid [OF this]
    show "\<exists>image_paths. getitem (call_input c) ''image_paths'' = Inr image_paths \<and>
            image_paths \<noteq> PList [] \<and>
            (\<forall>total_duration. (\<forall>p. load_error p \<noteq> Some ZeroDivisionError) \<longrightarrow>
               create_video_clips load_error image_paths total_duration
                 \<noteq> Inl ZeroDivisionError)"
      unfolding same .
  qed
  show ?thesis
    by (intro conjI) (rule empty absorbed nonempty accepted pipeline)+
qed


theorem editor_division_witness:
  "BaseAgent_run
     (EditorAgent_process
        \<lparr>video_quality = PStr ''high'', audio_quality = PStr ''high'',
         transition_style = PStr ''fade''\<rparr>
        (\<lambda>p. None) (\<lambda>clips audio platform. Inr ''output/videos/tiktok_final.mp4''))
     (EditorAgent_validate_output (\<lambda>p. Inr True) (\<lambda>p. Inr 60))
     [(''image_paths'', PList []), (''audio_path'', PStr ''voice.mp3''),
      (''platform'', PStr ''tiktok''), (''duration'', PNum 60),
      (''aspect_ratio'', PStr ''9:16'')] = Inr None \<and>
   py_truediv (PNum 60) (PNum (real (length [PStr ''a.png'', PStr ''b.png'']))) = Inr (PNum 30) \<and>
   create_video_clips (\<lambda>p. None) (PList [PStr ''a.png'', PStr ''b.png'']) (PNum 60)
     \<noteq> Inl ZeroDivisionError \<and>
   VisualAgent_validate_output (\<lambda>p. Inr True) (\<lambda>p. Inr ()) (canned Visual) = Inr True \<and>
   getitem (example_input Editor) ''image_paths'' = Inr (PList [PStr ''image_0.png'']) \<and>
   create_video_clips (\<lambda>p. None) (PList [PStr ''image_0.png'']) (PNum 60)
     \<noteq> Inl ZeroDivisionError"
proof -
  note division = editor_division [where load_error = "\<lambda>p. None" and t = 60 and
        input_data = "[(''image_paths'', PList []), (''audio_path'', PStr ''voice.mp3''),
          (''platform'', PStr ''tiktok''), (''duration'', PNum 60),
          (''aspect_ratio'', PStr ''9:16'')]" and
        self = "\<lparr>video_quality = PStr ''high'', audio_quality = PStr ''high'',
          transition_style = PStr ''fade''\<rparr>" and
        write_video = "\<lambda>clips audio platform. Inr ''output/videos/tiktok_final.mp4''" and
        path_exists = "\<lambda>p. Inr True" and video_duration = "\<lambda>p. Inr 60" and
        image_open = "\<lambda>p. Inr ()"]
  have valid: "VisualAgent_validate_output (\<lambda>p. Inr True) (\<lambda>p. Inr ()) (canned Visual) = Inr True"
    by (simp add: VisualAgent_validate_output_def contains_def getitem_def pbind_def)
  have validated: "\<forall>visual_input output. visual_run (mocks []) visual_input = Some output \<longrightarrow>
      VisualAgent_validate_output (\<lambda>p. Inr True) (\<lambda>p. Inr ()) output = Inr True"
    using valid by (simp add: mocks_def mock_def)
  have absorbed: "BaseAgent_run
     (EditorAgent_process
        \<lparr>video_quality = PStr ''high'', audio_quality = PStr ''high'',
         transition_style = PStr ''fade''\<rparr>
        (\<lambda>p. None) (\<lambda>clips audio platform. Inr ''output/videos/tiktok_final.mp4''))
     (EditorAgent_validate_output (\<lambda>p. Inr True) (\<lambda>p. Inr 60))
     [(''image_paths'', PList []), (''audio_path'', PStr ''voice.mp3''),
      (''platform'', PStr ''tiktok''), (''duration'', PNum 60),
      (''aspect_ratio'', PStr ''9:16'')] = Inr None"
    using division [THEN conjunct2, THEN conjunct1] by (simp add: contains_def getitem_def)
  have quotient: "py_truediv (PNum 60) (PNum (real (length [PStr ''a.png'', PStr ''b.png''])))
       = Inr (PNum 30) \<and>
     create_video_clips (\<lambda>p. None) (PList [PStr ''a.png'', PStr ''b.png'']) (PNum 60)
       \<noteq> Inl ZeroDivisionError"
    using division [THEN conjunct2, THEN conjunct2, THEN conjunct1, rule_format,
        of "[PStr ''a.png'', PStr ''b.png'']"]
    by simp
  have "\<exists>image_paths. getitem (example_input Editor) ''image_paths'' = Inr image_paths \<and>
      image_paths \<noteq> PList [] \<and>
      (\<forall>total_duration. (\<forall>p. (\<lambda>p. None) p \<noteq> Some ZeroDivisionError) \<longrightarrow>
         create_video_clips (\<lambda>p. None) image_paths total_duration \<noteq> Inl ZeroDivisionError)"
    using division [THEN conjunct2, THEN conjunct2, THEN conjunct2, THEN conjunct2, rule_format,
        OF conjI [OF run_succeeds validated],
        of "example_call Editor (Some (canned Editor))"]
    by (simp add: example_call_def)
  then have pipeline: "create_video_clips (\<lambda>p. None) (PList [PStr ''image_0.png'']) (PNum 60)
      \<noteq> Inl ZeroDivisionError"
    by (simp add: getitem_def)
  have "getitem (example_input Editor) ''image_paths'' = Inr (PList [PStr ''image_0.png''])"
    by (simp add: getitem_def)
  with absorbed quotient valid pipeline show ?thesis by (intro conjI) simp_all
qed

end
